theory Spec2Isabelle
  imports Complex_Main "HOL-Library.Sublist"
begin

section \<open>RetailIQ: the preprocessing pipeline (preprocessing.py)\<close>

text \<open>
  The script reads a CSV file into a table, cleans its columns, derives features, drops
  bad and duplicate rows and replaces the \<open>sales\<close> table of an SQLite store.

  Conventions of the embedding.
  \<^item> A Python \<open>str\<close> is a \<open>string\<close> holding its UTF-8 bytes. The character classes of the
    script (\<open>\d\<close>, white space, upper case) are modelled on ASCII; every byte of a non-ASCII
    character is at least 128 and so is in none of them.
  \<^item> A \<open>float64\<close> is the rational number it stands for; \<open>NaN\<close> is \<open>None\<close>. The result of a
    float operation is the exact result rounded to the nearest \<open>float64\<close>, ties to the even
    significand (\<open>fl\<close>); a result that overflows is an infinity, which is \<open>None\<close> as well
    (\<open>f64\<close>). Comparisons of floats are exact. The price and rating columns hold finite
    floats: a numeral so long that parsing it overflows is outside the model.
  \<^item> A raised exception is \<open>Inl\<close> of a sum type.
\<close>

subsection \<open>Values\<close>

datatype error = FileNotFoundError | ValueError

text \<open>
  A cell of the table as \<open>read_csv\<close> delivers it: a missing value (\<open>NaN\<close>) or a text. A cell
  that \<open>read_csv\<close> has already parsed as a number is represented by the text \<open>str\<close> gives.
\<close>

datatype cell = Missing | Text string

subsection \<open>binary64 arithmetic\<close>

text \<open>
  \<open>rint\<close>: the nearest integer, ties to the even one.
\<close>

definition rint :: "rat \<Rightarrow> int" where
  "rint x =
     (let f = \<lfloor>x\<rfloor>; d = x - of_int f
      in if d < 1 / 2 then f else if 1 / 2 < d then f + 1 else if even f then f else f + 1)"

text \<open>The number of binary digits of a positive integer, and the powers of two.\<close>

function bit_length :: "int \<Rightarrow> int" where
  "bit_length n = (if n \<le> 0 then 0 else 1 + bit_length (n div 2))"
  by pat_completeness auto
termination
  by (relation "measure nat") auto

definition pow2 :: "int \<Rightarrow> rat" where
  "pow2 k = (if 0 \<le> k then 2 ^ nat k else 1 / 2 ^ nat (- k))"

text \<open>
  The binary exponent of a positive rational \<open>p / q\<close>, the integer \<open>e\<close> with
  \<open>2 ^ e \<le> p / q < 2 ^ (e + 1)\<close>: it is the difference of the bit lengths of \<open>p\<close> and \<open>q\<close>,
  or one less.
\<close>

definition ilog2 :: "rat \<Rightarrow> int" where
  "ilog2 x =
     (let (p, q) = quotient_of x; k = bit_length p - bit_length q
      in if pow2 k \<le> x then k else k - 1)"

text \<open>
  Rounding to binary64 (53 binary digits, least exponent \<open>-1022\<close>, gradual underflow): the
  value is scaled so that its significand has 53 digits before the point, rounded by \<open>rint\<close>
  and scaled back. A rounded value of \<open>2 ^ 1024\<close> or more has overflowed.
\<close>

definition fl :: "rat \<Rightarrow> rat" where
  "fl x =
     (if x = 0 then 0
      else let e = max (ilog2 \<bar>x\<bar>) (- 1022); u = pow2 (e - 52)
           in of_int (rint (x / u)) * u)"

definition f64 :: "rat \<Rightarrow> rat option" where
  "f64 x = (let y = fl x in if y = 0 \<or> ilog2 \<bar>y\<bar> < 1024 then Some y else None)"

text \<open>
  Subtraction, multiplication and division of finite floats. Division does not raise: a
  zero divisor gives an infinity or \<open>NaN\<close>.
\<close>

definition fsub :: "rat \<Rightarrow> rat \<Rightarrow> rat option" where
  "fsub a b = f64 (a - b)"

definition fmul :: "rat \<Rightarrow> rat \<Rightarrow> rat option" where
  "fmul a b = f64 (a * b)"

definition true_div :: "rat \<Rightarrow> rat \<Rightarrow> rat option" where
  "true_div a b = (if b = 0 then None else f64 (a / b))"

subsection \<open>Section 6 of the script: the price bucket\<close>

text \<open>
  \<open>numpy.searchsorted(bins, x, side='left')\<close> on ascending \<open>bins\<close>: the number of edges
  strictly below \<open>x\<close>.
\<close>

definition searchsorted_left :: "rat list \<Rightarrow> rat \<Rightarrow> nat" where
  "searchsorted_left bins x = length (takeWhile (\<lambda>b. b < x) bins)"

text \<open>
  \<open>pandas.cut(x, bins, labels)\<close> with its defaults \<open>right=True\<close>, \<open>include_lowest=False\<close>:
  the position \<open>ids\<close> of \<open>x\<close> among the edges is found by \<open>searchsorted\<close>; positions \<open>0\<close> (at
  or below the first edge) and \<open>len(bins)\<close> (above the last edge) give \<open>NaN\<close>; any other
  position gives \<open>labels[ids - 1]\<close>.
\<close>

definition cut :: "rat list \<Rightarrow> string list \<Rightarrow> rat \<Rightarrow> string option" where
  "cut bins labels x =
     (let ids = searchsorted_left bins x
      in if ids = 0 \<or> ids = length bins then None else Some (labels ! (ids - 1)))"

definition bucket_bins :: "rat list" where
  "bucket_bins = [0, 500, 1000, 2000, 5000, 10000, 999999]"

definition bucket_labels :: "string list" where
  "bucket_labels = [''budget'', ''low'', ''mid'', ''upper-mid'', ''premium'', ''luxury'']"

definition price_bucket_label :: "rat \<Rightarrow> string option" where
  "price_bucket_label p = cut bucket_bins bucket_labels p"

text \<open>
  The categorical that \<open>cut\<close> returns is ordered by the position of a label in \<open>labels\<close>.
\<close>

definition bucket_rank :: "string \<Rightarrow> nat" where
  "bucket_rank l = length (takeWhile (\<lambda>k. k \<noteq> l) bucket_labels)"

subsection \<open>Section 3 of the script: cleaning helpers\<close>

definition is_digit :: "char \<Rightarrow> bool" where
  "is_digit c = (c \<in> set ''0123456789'')"

definition digit_value :: "char \<Rightarrow> nat" where
  "digit_value c = of_char c - 48"

definition digits_value :: "string \<Rightarrow> nat" where
  "digits_value ds = foldl (\<lambda>a c. 10 * a + digit_value c) 0 ds"

text \<open>
  An unsigned decimal numeral: digits, optionally one point and more digits, with a digit on
  at least one side of the point (\<open>12\<close>, \<open>12.\<close>, \<open>.5\<close>, \<open>12.5\<close>). Anything else is \<open>None\<close>.
\<close>

definition unsigned_decimal :: "string \<Rightarrow> rat option" where
  "unsigned_decimal s =
     (let ip = takeWhile is_digit s; rest = dropWhile is_digit s
      in case rest of
           [] \<Rightarrow> if ip = [] then None else Some (of_nat (digits_value ip))
         | c # fp \<Rightarrow>
             if c = CHR ''.'' \<and> list_all is_digit fp \<and> (ip \<noteq> [] \<or> fp \<noteq> [])
             then Some (of_nat (digits_value ip) + of_nat (digits_value fp) / 10 ^ length fp)
             else None)"

text \<open>
  Python's \<open>float(s)\<close> on a string of digits and points, the only strings \<open>clean_price\<close>
  passes to it: the value of the numeral, correctly rounded, or \<open>ValueError\<close> (could not
  convert string to float) when the string is not a numeral.
\<close>

definition py_float :: "string \<Rightarrow> error + rat" where
  "py_float s = (case unsigned_decimal s of None \<Rightarrow> Inl ValueError | Some v \<Rightarrow> Inr (fl v))"

text \<open>\<open>re.sub(r"[^\d.]", "", s)\<close>: every character that is not a digit or a point is removed.\<close>

definition re_sub_non_price :: "string \<Rightarrow> string" where
  "re_sub_non_price s = filter (\<lambda>c. is_digit c \<or> c = CHR ''.'') s"

text \<open>
  \<open>clean_price\<close>: \<open>0.0\<close> for a missing value; otherwise \<open>float\<close> of the stripped text, or of
  \<open>0\<close> when the stripped text is empty (\<open>... or 0\<close>).
\<close>

fun clean_price :: "cell \<Rightarrow> error + rat" where
  "clean_price Missing = Inr 0"
| "clean_price (Text s) =
     (let t = re_sub_non_price s in if t = [] then Inr 0 else py_float t)"

text \<open>ASCII white space as \<open>str.strip()\<close> sees it, and ASCII lower-casing as \<open>str.lower()\<close> does.\<close>

definition py_space :: "char \<Rightarrow> bool" where
  "py_space c =
     (c \<in> set [CHR 0x09, CHR 0x0A, CHR 0x0B, CHR 0x0C, CHR 0x0D,
                CHR 0x1C, CHR 0x1D, CHR 0x1E, CHR 0x1F, CHR 0x20])"

definition strip :: "string \<Rightarrow> string" where
  "strip s = rev (dropWhile py_space (rev (dropWhile py_space s)))"

definition lower_char :: "char \<Rightarrow> char" where
  "lower_char c =
     (case map_of (zip ''ABCDEFGHIJKLMNOPQRSTUVWXYZ'' ''abcdefghijklmnopqrstuvwxyz'') c of
        None \<Rightarrow> c | Some d \<Rightarrow> d)"

definition lower :: "string \<Rightarrow> string" where
  "lower s = map lower_char s"

fun clean_text :: "cell \<Rightarrow> string" where
  "clean_text Missing = []"
| "clean_text (Text s) = lower (strip s)"

subsection \<open>Section 4 of the script: core cleaning\<close>

text \<open>
  \<open>pandas.to_numeric(..., errors="coerce")\<close> on one value: a missing value stays \<open>NaN\<close>; a
  text is parsed as a decimal numeral with an optional sign, white space around it being
  skipped, and rounded to the nearest float; a text that does not parse becomes \<open>NaN\<close>. The parser of
  pandas also reads exponent notation and the spellings of infinity and \<open>NaN\<close>: texts with
  a letter are outside the model.
\<close>

definition c_space :: "char \<Rightarrow> bool" where
  "c_space c = (c \<in> set [CHR 0x09, CHR 0x0A, CHR 0x0B, CHR 0x0C, CHR 0x0D, CHR 0x20])"

definition signed_decimal :: "string \<Rightarrow> rat option" where
  "signed_decimal s =
     (case rev (dropWhile c_space (rev (dropWhile c_space s))) of
        [] \<Rightarrow> None
      | c # r \<Rightarrow>
          if c = CHR ''-'' then map_option uminus (unsigned_decimal r)
          else if c = CHR ''+'' then unsigned_decimal r
          else unsigned_decimal (c # r))"

fun to_numeric :: "cell \<Rightarrow> rat option" where
  "to_numeric Missing = None"
| "to_numeric (Text s) = map_option fl (signed_decimal s)"

text \<open>\<open>Series.fillna(v)\<close> on one value.\<close>

definition fillna :: "'a \<Rightarrow> 'a option \<Rightarrow> 'a" where
  "fillna v x = (case x of None \<Rightarrow> v | Some y \<Rightarrow> y)"

text \<open>\<open>Series.astype(str)\<close> on one value: a missing value becomes the text \<open>nan\<close>.\<close>

fun astype_str :: "cell \<Rightarrow> string" where
  "astype_str Missing = ''nan''"
| "astype_str (Text s) = s"

text \<open>\<open>Series.str.replace(",", "")\<close> on one value: every comma is removed.\<close>

definition str_replace_comma :: "string \<Rightarrow> string" where
  "str_replace_comma s = filter (\<lambda>c. c \<noteq> CHR '','') s"

text \<open>
  \<open>Series.astype(int)\<close> on one finite value: the fraction is cut off (rounding towards
  zero). The result of the script is a 64-bit integer: values beyond that range are outside
  the model.
\<close>

definition astype_int :: "rat \<Rightarrow> int" where
  "astype_int v = (if 0 \<le> v then \<lfloor>v\<rfloor> else \<lceil>v\<rceil>)"

definition clean_rating :: "cell \<Rightarrow> rat" where
  "clean_rating c = fillna 0 (to_numeric c)"

text \<open>
  The cleaning of \<open>rating_count\<close>. On a text with a letter, or with so many digits that
  the 64-bit range is left, the script differs from this function (it reads an exponent,
  and \<open>astype(int)\<close> raises on an infinity): see \<open>plain_count_text\<close> below.
\<close>

definition clean_rating_count :: "cell \<Rightarrow> int" where
  "clean_rating_count c =
     astype_int (fillna 0 (to_numeric (Text (str_replace_comma (astype_str c)))))"

text \<open>A row of the input file, and a row after core cleaning.\<close>

record raw_row =
  raw_product_name :: cell
  raw_category :: cell
  raw_discounted_price :: cell
  raw_actual_price :: cell
  raw_rating :: cell
  raw_rating_count :: cell

record clean_row =
  product_name :: string
  category :: string
  discounted_price :: rat
  actual_price :: rat
  rating :: rat
  rating_count :: int

text \<open>
  \<open>Series.apply(f)\<close> with an \<open>f\<close> that may raise: the values are converted in order and the
  first exception ends the run.
\<close>

fun apply_series :: "('a \<Rightarrow> error + 'b) \<Rightarrow> 'a list \<Rightarrow> error + 'b list" where
  "apply_series f [] = Inr []"
| "apply_series f (x # xs) =
     (case f x of
        Inl e \<Rightarrow> Inl e
      | Inr y \<Rightarrow> (case apply_series f xs of Inl e \<Rightarrow> Inl e | Inr ys \<Rightarrow> Inr (y # ys)))"

text \<open>
  The cleaned row of an input row, given its two cleaned prices: the columns whose cleaning
  cannot raise are cleaned here.
\<close>

definition clean_row_of :: "raw_row \<Rightarrow> rat \<Rightarrow> rat \<Rightarrow> clean_row" where
  "clean_row_of r dp ap =
     \<lparr>product_name = clean_text (raw_product_name r),
      category = clean_text (raw_category r),
      discounted_price = dp,
      actual_price = ap,
      rating = clean_rating (raw_rating r),
      rating_count = clean_rating_count (raw_rating_count r)\<rparr>"

text \<open>
  Core cleaning: the \<open>discounted_price\<close> column is cleaned first, then \<open>actual_price\<close>, then
  the other columns.
\<close>

definition core_cleaning :: "raw_row list \<Rightarrow> error + clean_row list" where
  "core_cleaning df =
     (case apply_series clean_price (map raw_discounted_price df) of
        Inl e \<Rightarrow> Inl e
      | Inr dps \<Rightarrow>
          (case apply_series clean_price (map raw_actual_price df) of
             Inl e \<Rightarrow> Inl e
           | Inr aps \<Rightarrow>
               Inr (map (\<lambda>(r, dp, ap). clean_row_of r dp ap) (zip df (zip dps aps)))))"

subsection \<open>Section 5 of the script: category normalization\<close>

text \<open>\<open>s.split(sep)\<close> for a one-character separator: never the empty list.\<close>

fun split_on :: "char \<Rightarrow> string \<Rightarrow> string list" where
  "split_on sep [] = [[]]"
| "split_on sep (c # cs) =
     (if c = sep then [] # split_on sep cs
      else (case split_on sep cs of [] \<Rightarrow> [[c]] | w # ws \<Rightarrow> (c # w) # ws))"

text \<open>\<open>Series.str[0]\<close> on one value: the first element, \<open>NaN\<close> for an empty list.\<close>

definition str_get0 :: "string list \<Rightarrow> string option" where
  "str_get0 xs = (case xs of [] \<Rightarrow> None | x # _ \<Rightarrow> Some x)"

definition category_map :: "(string \<times> string) list" where
  "category_map =
     [(''electronics'', ''Electronics''),
      (''computers&accessories'', ''Computers''),
      (''home&kitchen'', ''Home & Kitchen''),
      (''health&personalcare'', ''Personal Care''),
      (''officeproducts'', ''Stationery''),
      (''homeimprovement'', ''Home Improvement''),
      (''toys&games'', ''Toys & Games''),
      (''musicalinstruments'', ''Musical Instruments''),
      (''car&motorbike'', ''Automotive'')]"

text \<open>\<open>Series.map(d)\<close> on one value: \<open>NaN\<close> for \<open>NaN\<close> and for a key that \<open>d\<close> does not have.\<close>

definition series_map :: "(string \<times> string) list \<Rightarrow> string option \<Rightarrow> string option" where
  "series_map d k = (case k of None \<Rightarrow> None | Some k' \<Rightarrow> map_of d k')"

record cat_row = clean_row +
  main_category_raw :: "string option"
  main_category :: string

definition normalize_categories :: "clean_row list \<Rightarrow> cat_row list" where
  "normalize_categories df =
     map (\<lambda>r.
       let raw = str_get0 (split_on (CHR ''|'') (category r))
       in \<lparr>product_name = product_name r,
           category = category r,
           discounted_price = discounted_price r,
           actual_price = actual_price r,
           rating = rating r,
           rating_count = rating_count r,
           main_category_raw = raw,
           main_category = fillna ''Other'' (series_map category_map raw)\<rparr>) df"

subsection \<open>Section 6 of the script: feature engineering\<close>

text \<open>
  \<open>Series.replace(old, new)\<close>, the difference of two columns, the quotient of two columns
  and the product of a column and a number. An infinity or \<open>NaN\<close> stays one.
\<close>

definition series_replace :: "rat \<Rightarrow> rat \<Rightarrow> rat list \<Rightarrow> rat list" where
  "series_replace old new xs = map (\<lambda>x. if x = old then new else x) xs"

definition series_sub :: "rat list \<Rightarrow> rat list \<Rightarrow> rat option list" where
  "series_sub xs ys = map (\<lambda>(x, y). fsub x y) (zip xs ys)"

definition series_div :: "rat option list \<Rightarrow> rat list \<Rightarrow> rat option list" where
  "series_div xs ys = map (\<lambda>(x, y). Option.bind x (\<lambda>a. true_div a y)) (zip xs ys)"

definition series_mul :: "rat option list \<Rightarrow> rat \<Rightarrow> rat option list" where
  "series_mul xs k = map (\<lambda>x. Option.bind x (\<lambda>a. fmul a k)) xs"

text \<open>
  \<open>Series.round(n)\<close> is numpy's \<open>around\<close>: the value is multiplied by \<open>10 ** n\<close>, rounded to
  the nearest integer with ties to the even one (\<open>rint\<close>), and divided by \<open>10 ** n\<close>; the
  product and the quotient are float operations.
\<close>

definition round_decimals :: "nat \<Rightarrow> rat \<Rightarrow> rat option" where
  "round_decimals n x =
     Option.bind (fmul x (10 ^ n)) (\<lambda>y. true_div (of_int (rint y)) (10 ^ n))"

definition series_round :: "nat \<Rightarrow> rat option list \<Rightarrow> rat option list" where
  "series_round n xs = map (\<lambda>x. Option.bind x (round_decimals n)) xs"

definition discount_percent_column :: "cat_row list \<Rightarrow> rat option list" where
  "discount_percent_column df =
     series_round 2
       (series_mul
          (series_div (series_sub (map actual_price df) (map discounted_price df))
                      (series_replace 0 1 (map actual_price df)))
          100)"

record feature_row = cat_row +
  discount_percent :: "rat option"
  price_savings :: "rat option"
  popularity_score :: "rat option"
  price_bucket :: "string option"

text \<open>
  In \<open>rating * rating_count\<close> the integer column is converted to \<open>float64\<close> first.
\<close>

definition feature_engineering :: "cat_row list \<Rightarrow> feature_row list" where
  "feature_engineering df =
     map (\<lambda>(r, pct).
       \<lparr>product_name = product_name r,
        category = category r,
        discounted_price = discounted_price r,
        actual_price = actual_price r,
        rating = rating r,
        rating_count = rating_count r,
        main_category_raw = main_category_raw r,
        main_category = main_category r,
        discount_percent = pct,
        price_savings = fsub (actual_price r) (discounted_price r),
        popularity_score = fmul (rating r) (fl (of_int (rating_count r))),
        price_bucket = price_bucket_label (discounted_price r)\<rparr>)
     (zip df (discount_percent_column df))"

subsection \<open>Section 7 of the script: removing bad data\<close>

text \<open>
  \<open>DataFrame.drop_duplicates(subset=...)\<close> with its default \<open>keep='first'\<close>: the rows are
  visited in order and a row is dropped when its key has been seen before.
\<close>

fun drop_duplicates_from :: "('a \<Rightarrow> 'k) \<Rightarrow> 'k list \<Rightarrow> 'a list \<Rightarrow> 'a list" where
  "drop_duplicates_from key seen [] = []"
| "drop_duplicates_from key seen (x # xs) =
     (if key x \<in> set seen then drop_duplicates_from key seen xs
      else x # drop_duplicates_from key (key x # seen) xs)"

definition drop_duplicates :: "('a \<Rightarrow> 'k) \<Rightarrow> 'a list \<Rightarrow> 'a list" where
  "drop_duplicates key xs = drop_duplicates_from key [] xs"

definition remove_bad_data :: "feature_row list \<Rightarrow> feature_row list" where
  "remove_bad_data df =
     drop_duplicates (\<lambda>r. (product_name r, discounted_price r))
       (filter (\<lambda>r. 0 \<le> discounted_price r) (filter (\<lambda>r. 0 < actual_price r) df))"

subsection \<open>Section 8 of the script: the final dataset\<close>

record sales_row =
  s_product_name :: string
  s_category :: string
  s_main_category :: string
  s_discounted_price :: rat
  s_actual_price :: rat
  s_price_savings :: "rat option"
  s_discount_percent :: "rat option"
  s_rating :: rat
  s_rating_count :: int
  s_popularity_score :: "rat option"
  s_price_bucket :: "string option"

definition project :: "feature_row \<Rightarrow> sales_row" where
  "project r =
     \<lparr>s_product_name = product_name r,
      s_category = category r,
      s_main_category = main_category r,
      s_discounted_price = discounted_price r,
      s_actual_price = actual_price r,
      s_price_savings = price_savings r,
      s_discount_percent = discount_percent r,
      s_rating = rating r,
      s_rating_count = rating_count r,
      s_popularity_score = popularity_score r,
      s_price_bucket = price_bucket r\<rparr>"

definition final_df :: "feature_row list \<Rightarrow> sales_row list" where
  "final_df df = map project df"

text \<open>Sections 4 to 6: every input row becomes one enriched row, or the run ends in an error.\<close>

definition enrich :: "raw_row list \<Rightarrow> error + feature_row list" where
  "enrich df =
     (case core_cleaning df of
        Inl e \<Rightarrow> Inl e
      | Inr cleaned \<Rightarrow> Inr (feature_engineering (normalize_categories cleaned)))"

text \<open>Sections 4 to 8: from the loaded table to the table that is written.\<close>

definition transform :: "raw_row list \<Rightarrow> error + sales_row list" where
  "transform df =
     (case enrich df of
        Inl e \<Rightarrow> Inl e
      | Inr enriched \<Rightarrow> Inr (final_df (remove_bad_data enriched)))"

subsection \<open>Section 9 of the script: the SQLite store\<close>

text \<open>
  The store: its tables, each an ordered list of rows, and its indexes, each with the table
  and column it is on.
\<close>

record store =
  tables :: "string \<rightharpoonup> sales_row list"
  indexes :: "string \<rightharpoonup> string \<times> string"

text \<open>\<open>DROP TABLE\<close> removes the table and the indexes on it.\<close>

definition drop_table :: "string \<Rightarrow> store \<Rightarrow> store" where
  "drop_table t db =
     \<lparr>tables = (tables db)(t := None),
      indexes = (\<lambda>n. case indexes db n of
                         None \<Rightarrow> None
                       | Some (t', c) \<Rightarrow> if t' = t then None else Some (t', c))\<rparr>"

text \<open>\<open>to_sql(t, conn, if_exists="replace")\<close>: the table is dropped and written anew.\<close>

definition to_sql_replace :: "string \<Rightarrow> sales_row list \<Rightarrow> store \<Rightarrow> store" where
  "to_sql_replace t rows db =
     (let db' = drop_table t db in db'\<lparr>tables := (tables db')(t \<mapsto> rows)\<rparr>)"

definition create_index_if_not_exists :: "string \<Rightarrow> string \<Rightarrow> string \<Rightarrow> store \<Rightarrow> store" where
  "create_index_if_not_exists n t c db =
     (case indexes db n of
        None \<Rightarrow> db\<lparr>indexes := (indexes db)(n \<mapsto> (t, c))\<rparr>
      | Some _ \<Rightarrow> db)"

definition save :: "sales_row list \<Rightarrow> store \<Rightarrow> store" where
  "save rows db =
     create_index_if_not_exists ''idx_price'' ''sales'' ''discounted_price''
       (create_index_if_not_exists ''idx_rating'' ''sales'' ''rating''
          (create_index_if_not_exists ''idx_main_category'' ''sales'' ''main_category''
             (to_sql_replace ''sales'' rows db)))"

text \<open>
  The whole script. The input file is \<open>None\<close> when it does not exist, and otherwise the table
  \<open>read_csv\<close> loads from it. The store is opened only after the final dataset is ready, so a
  run that raises leaves it as it was.
\<close>

definition preprocessing :: "raw_row list option \<Rightarrow> store \<Rightarrow> error + store" where
  "preprocessing csv db =
     (case csv of
        None \<Rightarrow> Inl FileNotFoundError
      | Some df \<Rightarrow>
          (case transform df of
             Inl e \<Rightarrow> Inl e
           | Inr rows \<Rightarrow> Inr (save rows db)))"

subsection \<open>The discount percent of one record\<close>

text \<open>
  The discount percent of a record as the specification words it, before rounding:
  \<open>(actual_price - discounted_price) / d * 100\<close> in float arithmetic, where \<open>d\<close> is
  \<open>actual_price\<close>, or 1 when \<open>actual_price\<close> is 0.
\<close>

definition percent_unrounded :: "rat \<Rightarrow> rat \<Rightarrow> rat option" where
  "percent_unrounded ap dp =
     Option.bind
       (Option.bind (fsub ap dp) (\<lambda>a. true_div a (if ap = 0 then 1 else ap)))
       (\<lambda>q. fmul q 100)"

subsection \<open>Sample rows\<close>

text \<open>
  The input row of the end-to-end scenario; the rupee sign is its three UTF-8 bytes.
\<close>

definition wireless_mouse :: raw_row where
  "wireless_mouse =
     \<lparr>raw_product_name = Text ''Wireless Mouse'',
      raw_category = Text ''electronics|accessories|mice'',
      raw_discounted_price = Text ([CHR 0xE2, CHR 0x82, CHR 0xB9] @ ''499''),
      raw_actual_price = Text ([CHR 0xE2, CHR 0x82, CHR 0xB9] @ ''999''),
      raw_rating = Text ''4.3'',
      raw_rating_count = Text ''1,234''\<rparr>"

text \<open>A second input row.\<close>

definition usb_cable :: raw_row where
  "usb_cable =
     \<lparr>raw_product_name = Text ''USB Cable'',
      raw_category = Text ''Computers&Accessories|Cables'',
      raw_discounted_price = Text ''199'',
      raw_actual_price = Text ''349'',
      raw_rating = Text ''4.0'',
      raw_rating_count = Text ''50''\<rparr>"

text \<open>
  A row whose two prices are zero, a row with the prices 67 and 160, and a row of a
  category the table does not have.
\<close>

definition free_item :: cat_row where
  "free_item =
     \<lparr>product_name = ''sample'', category = ''toys&games|puzzles'',
      discounted_price = 0, actual_price = 0, rating = 4, rating_count = 10,
      main_category_raw = Some ''toys&games'', main_category = ''Toys & Games''\<rparr>"

definition puzzle :: cat_row where
  "puzzle =
     \<lparr>product_name = ''puzzle'', category = ''toys&games|puzzles'',
      discounted_price = 67, actual_price = 160, rating = 4, rating_count = 10,
      main_category_raw = Some ''toys&games'', main_category = ''Toys & Games''\<rparr>"

definition unknown_item :: clean_row where
  "unknown_item =
     \<lparr>product_name = ''gadget'', category = ''unknowntype|foo'',
      discounted_price = 10, actual_price = 20, rating = 4, rating_count = 10\<rparr>"

text \<open>The rows written for the two input rows.\<close>

definition wireless_mouse_sales :: sales_row where
  "wireless_mouse_sales =
     \<lparr>s_product_name = ''wireless mouse'',
      s_category = ''electronics|accessories|mice'',
      s_main_category = ''Electronics'', s_discounted_price = 499,
      s_actual_price = 999, s_price_savings = Some 500,
      s_discount_percent = Some (fl (5005 / 100)), s_rating = fl (43 / 10),
      s_rating_count = 1234, s_popularity_score = Some (fl (53062 / 10)),
      s_price_bucket = Some ''budget''\<rparr>"

definition usb_cable_sales :: sales_row where
  "usb_cable_sales =
     \<lparr>s_product_name = ''usb cable'',
      s_category = ''computers&accessories|cables'',
      s_main_category = ''Computers'', s_discounted_price = 199,
      s_actual_price = 349, s_price_savings = Some 150,
      s_discount_percent = Some (fl (4298 / 100)), s_rating = 4,
      s_rating_count = 50, s_popularity_score = Some 200,
      s_price_bucket = Some ''budget''\<rparr>"

text \<open>
  A table for the quality filter: \<open>mouse_b\<close> has the name and the discounted price of
  \<open>mouse_a\<close>, \<open>keyboard\<close> only its discounted price, \<open>mouse_c\<close> only its name, and \<open>unpriced\<close>
  has no positive actual price.
\<close>

definition mouse_a :: feature_row where
  "mouse_a =
     \<lparr>product_name = ''mouse'', category = ''electronics|mice'',
      discounted_price = 499, actual_price = 999, rating = 4, rating_count = 10,
      main_category_raw = Some ''electronics'', main_category = ''Electronics'',
      discount_percent = Some (fl (5005 / 100)), price_savings = Some 500,
      popularity_score = Some 40, price_bucket = Some ''budget''\<rparr>"

definition mouse_b :: feature_row where
  "mouse_b =
     \<lparr>product_name = ''mouse'', category = ''electronics|mice'',
      discounted_price = 499, actual_price = 1200, rating = 3, rating_count = 7,
      main_category_raw = Some ''electronics'', main_category = ''Electronics'',
      discount_percent = Some (fl (5842 / 100)), price_savings = Some 701,
      popularity_score = Some 21, price_bucket = Some ''budget''\<rparr>"

definition keyboard :: feature_row where
  "keyboard =
     \<lparr>product_name = ''keyboard'', category = ''electronics|keyboards'',
      discounted_price = 499, actual_price = 998, rating = 4, rating_count = 5,
      main_category_raw = Some ''electronics'', main_category = ''Electronics'',
      discount_percent = Some 50, price_savings = Some 499,
      popularity_score = Some 20, price_bucket = Some ''budget''\<rparr>"

definition unpriced :: feature_row where
  "unpriced =
     \<lparr>product_name = ''cable'', category = ''electronics|cables'',
      discounted_price = 0, actual_price = 0, rating = 0, rating_count = 0,
      main_category_raw = Some ''electronics'', main_category = ''Electronics'',
      discount_percent = Some 0, price_savings = Some 0, popularity_score = Some 0,
      price_bucket = None\<rparr>"

definition mouse_c :: feature_row where
  "mouse_c =
     \<lparr>product_name = ''mouse'', category = ''electronics|mice'',
      discounted_price = 599, actual_price = 1198, rating = 5, rating_count = 2,
      main_category_raw = Some ''electronics'', main_category = ''Electronics'',
      discount_percent = Some 50, price_savings = Some 599,
      popularity_score = Some 10, price_bucket = Some ''low''\<rparr>"

definition filter_table :: "feature_row list" where
  "filter_table = [mouse_a, mouse_b, keyboard, unpriced, mouse_c]"

subsection \<open>Rating counts the model covers\<close>


subsection \<open>Rows and their origin\<close>

text \<open>
  A written row \<open>s\<close> stems from the input row \<open>r\<close> when the script, run on \<open>r\<close> alone up to
  feature engineering, produces the row that \<open>s\<close> is the projection of.
\<close>

definition written_for :: "raw_row \<Rightarrow> sales_row \<Rightarrow> bool" where
  "written_for r s \<longleftrightarrow> (case enrich [r] of Inr [e] \<Rightarrow> s = project e | _ \<Rightarrow> False)"

definition empty_store :: store where
  "empty_store = \<lparr>tables = Map.empty, indexes = Map.empty\<rparr>"

section \<open>Properties\<close>

subsection \<open>Price bucket\<close>

lemma price_bucket_label_cases:
  "price_bucket_label p =
     (if p \<le> 0 then None
      else if p \<le> 500 then Some ''budget''
      else if p \<le> 1000 then Some ''low''
      else if p \<le> 2000 then Some ''mid''
      else if p \<le> 5000 then Some ''upper-mid''
      else if p \<le> 10000 then Some ''premium''
      else if p \<le> 999999 then Some ''luxury''
      else None)"
  by (simp add: price_bucket_label_def cut_def searchsorted_left_def bucket_bins_def
      bucket_labels_def not_le)

lemma bucket_rank_values:
  "bucket_rank ''budget'' = 0" "bucket_rank ''low'' = 1" "bucket_rank ''mid'' = 2"
  "bucket_rank ''upper-mid'' = 3" "bucket_rank ''premium'' = 4" "bucket_rank ''luxury'' = 5"
  by (simp_all add: bucket_rank_def bucket_labels_def)

text \<open>
  Claim C1, as the code has it. For every discounted price \<open>p\<close> with \<open>0 < p \<le> 999999\<close> the
  bucket assignment yields exactly one of the six labels, and the bins are closed on the
  right: \<open>(0, 500]\<close> is budget, \<open>(500, 1000]\<close> low, \<open>(1000, 2000]\<close> mid, \<open>(2000, 5000]\<close>
  upper-mid, \<open>(5000, 10000]\<close> premium and \<open>(10000, 999999]\<close> luxury. A value exactly at a cut
  point therefore belongs to the lower bucket.
\<close>

theorem price_bucket_right_closed:
  assumes "0 < p" and "p \<le> 999999"
  shows "(\<exists>l \<in> set bucket_labels. price_bucket_label p = Some l)
    \<and> (price_bucket_label p = Some ''budget'' \<longleftrightarrow> p \<le> 500)
    \<and> (price_bucket_label p = Some ''low'' \<longleftrightarrow> 500 < p \<and> p \<le> 1000)
    \<and> (price_bucket_label p = Some ''mid'' \<longleftrightarrow> 1000 < p \<and> p \<le> 2000)
    \<and> (price_bucket_label p = Some ''upper-mid'' \<longleftrightarrow> 2000 < p \<and> p \<le> 5000)
    \<and> (price_bucket_label p = Some ''premium'' \<longleftrightarrow> 5000 < p \<and> p \<le> 10000)
    \<and> (price_bucket_label p = Some ''luxury'' \<longleftrightarrow> 10000 < p)"
  using assms by (simp add: price_bucket_label_cases bucket_labels_def)

theorem price_bucket_right_closed_witness:
  "(0::rat) < 500 \<and> (500::rat) \<le> 999999 \<and> price_bucket_label 500 = Some ''budget''"
  using price_bucket_right_closed [of 500] by simp

text \<open>
  Claim C1 as the specification states it fails: the cut point 500 is labelled budget, not
  low; the price 0 gets no label; and neither does a price above 999999.
\<close>

theorem price_bucket_boundary_counterexample:
  "price_bucket_label 500 = Some ''budget'' \<and> price_bucket_label 500 \<noteq> Some ''low''
   \<and> price_bucket_label 0 = None \<and> price_bucket_label 1000000 = None"
  by (simp add: price_bucket_label_cases)

text \<open>
  Claim C9. For prices \<open>p \<le> q\<close> that both get a label, the label of \<open>p\<close> is not above the
  label of \<open>q\<close> in the order budget, low, mid, upper-mid, premium, luxury.
\<close>

theorem price_bucket_monotone:
  assumes "p \<le> q" and "price_bucket_label p = Some a" and "price_bucket_label q = Some b"
  shows "bucket_rank a \<le> bucket_rank b"
  using assms by (auto simp: price_bucket_label_cases bucket_rank_values split: if_splits)

theorem price_bucket_monotone_witness:
  "(499::rat) \<le> 501 \<and> price_bucket_label 499 = Some ''budget''
   \<and> price_bucket_label 501 = Some ''low'' \<and> bucket_rank ''budget'' \<le> bucket_rank ''low''"
proof -
  have a: "price_bucket_label 499 = Some ''budget''" by (simp add: price_bucket_label_cases)
  have b: "price_bucket_label 501 = Some ''low''" by (simp add: price_bucket_label_cases)
  have c: "(499::rat) \<le> 501" by simp
  from price_bucket_monotone [OF c a b] a b c show ?thesis by simp
qed

subsection \<open>Cleaning a price\<close>

text \<open>
  Claim C2 fails on the code. The text \<open>N.A.\<close> is stripped to two points, which \<open>float\<close>
  rejects: \<open>clean_price\<close> raises \<open>ValueError\<close> instead of returning 0.0.
\<close>

theorem clean_price_raises: "clean_price (Text ''N.A.'') = Inl ValueError"
  by (simp add: re_sub_non_price_def is_digit_def py_float_def unsigned_decimal_def)

subsection \<open>Rounding\<close>

lemma rint_bounds: "\<bar>of_int (rint x) - x\<bar> \<le> 1 / 2"
proof -
  have lo: "of_int \<lfloor>x\<rfloor> \<le> x" and hi: "x < of_int \<lfloor>x\<rfloor> + 1"
    by linarith+
  show ?thesis
  proof (cases "x - of_int \<lfloor>x\<rfloor> < 1 / 2")
    case True
    then have "rint x = \<lfloor>x\<rfloor>" by (simp add: rint_def Let_def)
    with True lo show ?thesis by (simp add: abs_le_iff)
  next
    case False
    note ge = this
    show ?thesis
    proof (cases "1 / 2 < x - of_int \<lfloor>x\<rfloor>")
      case True
      with ge have "rint x = \<lfloor>x\<rfloor> + 1" by (simp add: rint_def Let_def)
      with True hi show ?thesis by (simp add: abs_le_iff)
    next
      case False
      with ge have eq: "x - of_int \<lfloor>x\<rfloor> = 1 / 2" by linarith
      then have "rint x = \<lfloor>x\<rfloor> \<or> rint x = \<lfloor>x\<rfloor> + 1" by (simp add: rint_def Let_def)
      with eq show ?thesis by (auto simp: abs_le_iff)
    qed
  qed
qed


lemma rint_0: "rint 0 = 0"
  by (simp add: rint_def)


lemma fl_0: "fl 0 = 0"
  by (simp add: fl_def)


lemma f64_0: "f64 0 = Some 0"
  by (simp add: f64_def fl_0)

lemma fl_values:
  "fl 499 = 499" "fl 999 = 999" "fl 1234 = 1234" "fl 199 = 199" "fl 349 = 349"
  "fl 4 = 4" "fl 50 = 50"
  by code_simp+

text \<open>
  Known values of binary64: the float of 0.1, the sum \<open>0.1 + 0.2\<close> that is not the float
  of 0.3 but the next one, the tie \<open>2 ^ 53 + 1\<close> that goes to the even significand, and the
  float of one third.
\<close>

lemma fl_anchors:
  "fl (1 / 10) = 3602879701896397 / 36028797018963968"
  "fl (fl (1 / 10) + fl (2 / 10)) \<noteq> fl (3 / 10)"
  "fl (fl (1 / 10) + fl (2 / 10)) = fl (3 / 10) + 1 / 2 ^ 54"
  "fl (2 ^ 53 + 1) = 2 ^ 53"
  "fl (1 / 3) = 6004799503160661 / 18014398509481984"
  by code_simp+

subsection \<open>The end-to-end scenario\<close>

lemma core_cleaning_wireless_mouse:
  "core_cleaning [wireless_mouse] =
     Inr [\<lparr>product_name = ''wireless mouse'',
          category = ''electronics|accessories|mice'',
          discounted_price = 499, actual_price = 999, rating = fl (43 / 10),
          rating_count = 1234\<rparr>]"
  by (simp add: core_cleaning_def clean_row_of_def wireless_mouse_def re_sub_non_price_def
      is_digit_def py_float_def unsigned_decimal_def digits_value_def digit_value_def lower_def
      lower_char_def strip_def py_space_def clean_rating_def clean_rating_count_def
      str_replace_comma_def astype_int_def fillna_def signed_decimal_def c_space_def fl_values)

lemma feature_engineering_wireless_mouse:
  "feature_engineering
     [\<lparr>product_name = ''wireless mouse'',
       category = ''electronics|accessories|mice'',
       discounted_price = 499, actual_price = 999, rating = fl (43 / 10),
       rating_count = 1234,
       main_category_raw = Some ''electronics'', main_category = ''Electronics''\<rparr>] =
     [\<lparr>product_name = ''wireless mouse'',
       category = ''electronics|accessories|mice'',
       discounted_price = 499, actual_price = 999, rating = fl (43 / 10),
       rating_count = 1234,
       main_category_raw = Some ''electronics'', main_category = ''Electronics'',
       discount_percent = Some (fl (5005 / 100)), price_savings = Some 500,
       popularity_score = Some (fl (53062 / 10)), price_bucket = Some ''budget''\<rparr>]"
  by code_simp

lemma enrich_wireless_mouse:
  "enrich [wireless_mouse] =
     Inr [\<lparr>product_name = ''wireless mouse'',
          category = ''electronics|accessories|mice'',
          discounted_price = 499, actual_price = 999, rating = fl (43 / 10),
          rating_count = 1234,
          main_category_raw = Some ''electronics'', main_category = ''Electronics'',
          discount_percent = Some (fl (5005 / 100)), price_savings = Some 500,
          popularity_score = Some (fl (53062 / 10)), price_bucket = Some ''budget''\<rparr>]"
  by (simp add: enrich_def core_cleaning_wireless_mouse normalize_categories_def str_get0_def
      series_map_def category_map_def fillna_def feature_engineering_wireless_mouse)

lemma transform_wireless_mouse:
  "transform [wireless_mouse] = Inr [wireless_mouse_sales]"
  by (simp add: transform_def enrich_wireless_mouse remove_bad_data_def drop_duplicates_def
      final_df_def project_def wireless_mouse_sales_def)

lemma fl_scenario_values:
  "fl (53062 / 10) \<noteq> fl (52862 / 10)"
  "\<bar>fl (5005 / 100) - 5005 / 100\<bar> < 1 / 10 ^ 14"
  "\<bar>fl (53062 / 10) - 53062 / 10\<bar> < 1 / 10 ^ 12"
  by code_simp+

lemma fl_scenario_distinct: "fl (53062 / 10) \<noteq> 52862 / 10"
  by code_simp

text \<open>
  Claim C3, as the code has it. For the single input row of the scenario the pipeline writes
  one row with \<open>main_category = "Electronics"\<close>, \<open>discounted_price = 499.0\<close>,
  \<open>actual_price = 999.0\<close>, \<open>discount_percent = 50.05\<close>, \<open>popularity_score = 5306.2\<close>
  (that is \<open>4.3 * 1234\<close>) and \<open>price_bucket = "budget"\<close> (499 lies in \<open>(0, 500]\<close>). The two
  decimals stand for the floats nearest to them.
\<close>

theorem wireless_mouse_scenario:
  "map s_main_category (projr (transform [wireless_mouse])) = [''Electronics'']
   \<and> map s_discounted_price (projr (transform [wireless_mouse])) = [499]
   \<and> map s_actual_price (projr (transform [wireless_mouse])) = [999]
   \<and> map s_discount_percent (projr (transform [wireless_mouse])) = [Some (fl (5005 / 100))]
   \<and> map s_popularity_score (projr (transform [wireless_mouse])) = [Some (fl (53062 / 10))]
   \<and> map s_price_bucket (projr (transform [wireless_mouse])) = [Some ''budget'']
   \<and> \<bar>fl (5005 / 100) - 5005 / 100\<bar> < 1 / 10 ^ 14
   \<and> \<bar>fl (53062 / 10) - 53062 / 10\<bar> < 1 / 10 ^ 12"
  using fl_scenario_values(2,3)
  by (simp add: transform_wireless_mouse wireless_mouse_sales_def)

text \<open>
  Claim C3 as the specification states it fails: the popularity score is not 5286.2,
  neither the float nor the decimal, and the price bucket is not low.
\<close>

theorem wireless_mouse_counterexample:
  "map s_popularity_score (projr (transform [wireless_mouse])) \<noteq> [Some (fl (52862 / 10))]
   \<and> map s_popularity_score (projr (transform [wireless_mouse])) \<noteq> [Some (52862 / 10)]
   \<and> map s_price_bucket (projr (transform [wireless_mouse])) \<noteq> [Some ''low'']"
  using fl_scenario_values(1) fl_scenario_distinct
  by (simp add: transform_wireless_mouse wireless_mouse_sales_def)

subsection \<open>Discount percent\<close>

lemma discount_percent_column_eq:
  "discount_percent_column df =
     map (\<lambda>r. Option.bind (percent_unrounded (actual_price r) (discounted_price r))
                 (round_decimals 2)) df"
  by (induction df)
     (simp_all add: discount_percent_column_def series_round_def series_mul_def series_div_def
        series_sub_def series_replace_def percent_unrounded_def)

lemma zip_map_self: "zip xs (map f xs) = map (\<lambda>x. (x, f x)) xs"
  by (induction xs) simp_all

lemma percent_unrounded_zero: "percent_unrounded 0 0 = Some 0"
  by (simp add: percent_unrounded_def fsub_def true_div_def fmul_def f64_0)

lemma round_decimals_zero: "round_decimals n 0 = Some 0"
  by (simp add: round_decimals_def fmul_def true_div_def f64_0 rint_0)

lemma round_decimals_nearest:
  assumes "round_decimals 2 q = Some y"
  shows "\<exists>n s. fmul q 100 = Some s \<and> \<bar>of_int n - s\<bar> \<le> 1 / 2 \<and> y = fl (of_int n / 100)"
proof -
  from assms obtain s where s: "fmul q 100 = Some s"
    and y: "true_div (of_int (rint s)) 100 = Some y"
    by (auto simp: round_decimals_def split: bind_splits)
  from y have "y = fl (of_int (rint s) / 100)"
    by (auto simp: true_div_def f64_def Let_def split: if_splits)
  with s rint_bounds [of s] show ?thesis by blast
qed

text \<open>
  Claim C8. The divisor column never holds a zero. For every record, \<open>discount_percent\<close> is
  \<open>(actual_price - discounted_price) / d * 100\<close> rounded to two decimals, where \<open>d\<close> is
  \<open>actual_price\<close>, or 1 when \<open>actual_price\<close> is 0, all in float arithmetic. Rounded to two
  decimals means: when the unrounded value is the float \<open>q\<close> and the result the float \<open>y\<close>,
  then \<open>y\<close> is the float nearest to \<open>n / 100\<close> for an integer \<open>n\<close> within one half of the float
  \<open>q * 100\<close>. For two zero prices the result is 0.0.
\<close>

theorem discount_percent_guarded:
  "(\<forall>d \<in> set (series_replace 0 1 (map actual_price df)). d \<noteq> 0)
   \<and> (\<forall>r \<in> set (feature_engineering df).
        discount_percent r =
          Option.bind (percent_unrounded (actual_price r) (discounted_price r))
            (round_decimals 2)
        \<and> (\<forall>q y. percent_unrounded (actual_price r) (discounted_price r) = Some q
               \<and> discount_percent r = Some y \<longrightarrow>
             (\<exists>n s. fmul q 100 = Some s \<and> \<bar>of_int n - s\<bar> \<le> 1 / 2
                \<and> y = fl (of_int n / 100)))
        \<and> (actual_price r = 0 \<and> discounted_price r = 0 \<longrightarrow> discount_percent r = Some 0))"
proof -
  have a: "\<forall>d \<in> set (series_replace 0 1 (map actual_price df)). d \<noteq> 0"
    by (auto simp: series_replace_def)
  have b: "discount_percent r =
          Option.bind (percent_unrounded (actual_price r) (discounted_price r))
            (round_decimals 2)"
    if "r \<in> set (feature_engineering df)" for r
    using that by (auto simp: feature_engineering_def discount_percent_column_eq zip_map_self)
  have c: "\<exists>n s. fmul q 100 = Some s \<and> \<bar>of_int n - s\<bar> \<le> 1 / 2 \<and> y = fl (of_int n / 100)"
    if "r \<in> set (feature_engineering df)"
      and "percent_unrounded (actual_price r) (discounted_price r) = Some q"
      and "discount_percent r = Some y" for r q y
  proof -
    from b [OF that(1)] that(2,3) have "round_decimals 2 q = Some y" by simp
    then show ?thesis by (rule round_decimals_nearest)
  qed
  have d: "discount_percent r = Some 0"
    if "r \<in> set (feature_engineering df)" and "actual_price r = 0" and "discounted_price r = 0"
    for r
    using b [OF that(1)] that(2,3) by (simp add: percent_unrounded_zero round_decimals_zero)
  from a b c d show ?thesis by blast
qed

lemma feature_engineering_free_item:
  "feature_engineering [free_item] =
     [\<lparr>product_name = ''sample'', category = ''toys&games|puzzles'',
       discounted_price = 0, actual_price = 0, rating = 4, rating_count = 10,
       main_category_raw = Some ''toys&games'', main_category = ''Toys & Games'',
       discount_percent = Some 0, price_savings = Some 0, popularity_score = Some 40,
       price_bucket = None\<rparr>]"
  by code_simp

lemma feature_engineering_puzzle:
  "feature_engineering [puzzle] =
     [\<lparr>product_name = ''puzzle'', category = ''toys&games|puzzles'',
       discounted_price = 67, actual_price = 160, rating = 4, rating_count = 10,
       main_category_raw = Some ''toys&games'', main_category = ''Toys & Games'',
       discount_percent = Some (fl (5813 / 100)), price_savings = Some 93,
       popularity_score = Some 40, price_bucket = Some ''budget''\<rparr>]"
  by code_simp

lemma puzzle_values:
  "percent_unrounded 160 67 = Some (fl (fl (93 / 160) * 100))"
  "fmul (fl (fl (93 / 160) * 100)) 100 = Some (fl (fl (fl (93 / 160) * 100) * 100))"
  "rint (fl (fl (fl (93 / 160) * 100) * 100)) = 5813"
  "fl (5813 / 100) \<noteq> fl (5812 / 100)"
  "5812 + 1 / 2 < fl (fl (fl (93 / 160) * 100) * 100)"
  by code_simp+

theorem discount_percent_guarded_witness:
  "hd (feature_engineering [puzzle]) \<in> set (feature_engineering [puzzle])
   \<and> percent_unrounded 160 67 = Some (fl (fl (93 / 160) * 100))
   \<and> discount_percent (hd (feature_engineering [puzzle])) = Some (fl (5813 / 100))
   \<and> fl (5813 / 100) \<noteq> fl (5812 / 100)
   \<and> fmul (fl (fl (93 / 160) * 100)) 100 = Some (fl (fl (fl (93 / 160) * 100) * 100))
   \<and> \<bar>5813 - fl (fl (fl (93 / 160) * 100) * 100)\<bar> \<le> 1 / 2
   \<and> hd (feature_engineering [free_item]) \<in> set (feature_engineering [free_item])
   \<and> actual_price (hd (feature_engineering [free_item])) = 0
   \<and> discounted_price (hd (feature_engineering [free_item])) = 0
   \<and> discount_percent (hd (feature_engineering [free_item])) = Some 0
   \<and> (1::rat) \<in> set (series_replace 0 1 (map actual_price [free_item]))
   \<and> (1::rat) \<noteq> 0"
proof -
  let ?p = "hd (feature_engineering [puzzle])"
  let ?f = "hd (feature_engineering [free_item])"
  have p_in: "?p \<in> set (feature_engineering [puzzle])"
    by (simp add: feature_engineering_puzzle)
  have p_val: "discount_percent ?p = Some (fl (5813 / 100))"
    by (simp add: feature_engineering_puzzle)
  have near: "\<bar>5813 - fl (fl (fl (93 / 160) * 100) * 100)\<bar> \<le> 1 / 2"
    using rint_bounds [of "fl (fl (fl (93 / 160) * 100) * 100)"] by (simp add: puzzle_values(3))
  have f_in: "?f \<in> set (feature_engineering [free_item])"
    by (simp add: feature_engineering_free_item)
  have f_ap: "actual_price ?f = 0" and f_dp: "discounted_price ?f = 0"
    by (simp_all add: feature_engineering_free_item)
  from discount_percent_guarded [of "[free_item]"] f_in f_ap f_dp
  have f_val: "discount_percent ?f = Some 0" by blast
  have one: "(1::rat) \<in> set (series_replace 0 1 (map actual_price [free_item]))"
    by (simp add: series_replace_def free_item_def)
  from discount_percent_guarded [of "[free_item]"] one have "(1::rat) \<noteq> 0" by blast
  with p_in puzzle_values(1,2,4) p_val near f_in f_ap f_dp f_val one show ?thesis
    by (intro conjI)
qed

subsection \<open>Category normalization\<close>

lemma split_on_not_Nil: "split_on sep s \<noteq> []"
  by (induction s) (auto split: list.splits)

lemma category_map_values_not_Nil: "\<forall>v \<in> snd ` set category_map. v \<noteq> []"
  by (simp add: category_map_def)

lemma fillna_Other_cases:
  "fillna ''Other'' (series_map category_map k) \<noteq> []
   \<and> fillna ''Other'' (series_map category_map k) \<in> snd ` set category_map \<union> {''Other''}"
proof (cases "series_map category_map k")
  case None
  then show ?thesis by (simp add: fillna_def)
next
  case (Some v)
  then obtain k' where "map_of category_map k' = Some v"
    by (auto simp: series_map_def split: option.splits)
  then have "(k', v) \<in> set category_map" by (rule map_of_SomeD)
  then have "v \<in> snd ` set category_map" by force
  with category_map_values_not_Nil Some show ?thesis by (auto simp: fillna_def)
qed

text \<open>
  Claim C4. For every record the normalizer produces, \<open>main_category\<close> is not empty and is
  one of the names of the mapping table or \<open>Other\<close>; the first breadcrumb segment always
  exists, and when the table does not have it the result is \<open>Other\<close>. The normalizer has
  no error result: it cannot raise.
\<close>

theorem main_category_total:
  "\<forall>r \<in> set (normalize_categories df).
     main_category r \<noteq> []
     \<and> main_category r \<in> snd ` set category_map \<union> {''Other''}
     \<and> (\<exists>k. main_category_raw r = Some k
            \<and> (map_of category_map k = None \<longrightarrow> main_category r = ''Other''))"
proof
  fix r assume "r \<in> set (normalize_categories df)"
  then obtain c where r: "r = hd (normalize_categories [c])"
    by (auto simp: normalize_categories_def)
  obtain w ws where w: "split_on (CHR ''|'') (category c) = w # ws"
    using split_on_not_Nil [of "CHR ''|''" "category c"] by (cases "split_on (CHR ''|'') (category c)") auto
  have raw: "main_category_raw r = Some w"
    by (simp add: r normalize_categories_def w str_get0_def Let_def)
  have mc: "main_category r = fillna ''Other'' (series_map category_map (Some w))"
    by (simp add: r normalize_categories_def w str_get0_def Let_def)
  have "map_of category_map w = None \<longrightarrow> main_category r = ''Other''"
    by (simp add: mc series_map_def fillna_def)
  with raw mc fillna_Other_cases [of "Some w"] show
    "main_category r \<noteq> []
     \<and> main_category r \<in> snd ` set category_map \<union> {''Other''}
     \<and> (\<exists>k. main_category_raw r = Some k
            \<and> (map_of category_map k = None \<longrightarrow> main_category r = ''Other''))"
    by simp
qed

lemma normalize_unknown_item:
  "normalize_categories [unknown_item] =
     [\<lparr>product_name = ''gadget'', category = ''unknowntype|foo'',
       discounted_price = 10, actual_price = 20, rating = 4, rating_count = 10,
       main_category_raw = Some ''unknowntype'', main_category = ''Other''\<rparr>]"
  by code_simp

theorem main_category_total_witness:
  "hd (normalize_categories [unknown_item]) \<in> set (normalize_categories [unknown_item])
   \<and> main_category_raw (hd (normalize_categories [unknown_item])) = Some ''unknowntype''
   \<and> map_of category_map ''unknowntype'' = None
   \<and> main_category (hd (normalize_categories [unknown_item])) = ''Other''"
proof -
  have k: "map_of category_map ''unknowntype'' = None" by (simp add: category_map_def)
  show ?thesis
    using main_category_total [of "[unknown_item]"]
    by (simp add: normalize_unknown_item k)
qed

subsection \<open>Quality filter\<close>

lemma drop_duplicates_from_subseq: "subseq (drop_duplicates_from key seen xs) xs"
  by (induction xs arbitrary: seen) auto

lemma drop_duplicates_from_keys:
  "key ` set (drop_duplicates_from key seen xs) = key ` set xs - set seen"
  by (induction xs arbitrary: seen) auto

lemma drop_duplicates_from_distinct:
  "distinct (map key (drop_duplicates_from key seen xs))"
proof (induction xs arbitrary: seen)
  case Nil
  then show ?case by simp
next
  case (Cons x xs)
  have "key x \<notin> key ` set (drop_duplicates_from key (key x # seen) xs)"
    by (simp add: drop_duplicates_from_keys)
  with Cons show ?case by simp
qed

lemma drop_duplicates_from_first:
  assumes "x \<in> set (drop_duplicates_from key seen xs)"
  shows "find (\<lambda>y. key y = key x) xs = Some x"
  using assms
proof (induction xs arbitrary: seen)
  case Nil
  then show ?case by simp
next
  case (Cons y ys)
  show ?case
  proof (cases "key y \<in> set seen")
    case True
    with Cons.prems have in_rest: "x \<in> set (drop_duplicates_from key seen ys)" by simp
    then have "key x \<in> key ` set ys - set seen"
      using drop_duplicates_from_keys [of key seen ys] by blast
    with True have "key y \<noteq> key x" by auto
    with Cons.IH [OF in_rest] show ?thesis by simp
  next
    case False
    with Cons.prems have "x = y \<or> x \<in> set (drop_duplicates_from key (key y # seen) ys)"
      by simp
    then show ?thesis
    proof
      assume "x = y"
      then show ?thesis by simp
    next
      assume in_rest: "x \<in> set (drop_duplicates_from key (key y # seen) ys)"
      then have "key x \<in> key ` set ys - set (key y # seen)"
        using drop_duplicates_from_keys [of key "key y # seen" ys] by blast
      then have "key y \<noteq> key x" by auto
      with Cons.IH [OF in_rest] show ?thesis by simp
    qed
  qed
qed

lemma find_filter: "find P (filter Q xs) = find (\<lambda>x. Q x \<and> P x) xs"
  by (induction xs) auto

lemma drop_duplicates_from_set: "set (drop_duplicates_from key seen xs) \<subseteq> set xs"
  by (induction xs arbitrary: seen) auto

lemma remove_bad_data_eq:
  "remove_bad_data df =
     drop_duplicates_from (\<lambda>r. (product_name r, discounted_price r)) []
       (filter (\<lambda>r. 0 < actual_price r \<and> 0 \<le> discounted_price r) df)"
  by (simp add: remove_bad_data_def drop_duplicates_def)

lemma distinct_key_count:
  assumes "distinct (map f xs)" and "k \<in> f ` set xs"
  shows "length (filter (\<lambda>r. f r = k) xs) = 1"
  using assms
proof (induction xs)
  case Nil
  then show ?case by simp
next
  case (Cons x xs)
  show ?case
  proof (cases "f x = k")
    case True
    with Cons.prems(1) have "k \<notin> f ` set xs" by auto
    then have "filter (\<lambda>r. f r = k) xs = []" by (auto simp: filter_empty_conv)
    with True show ?thesis by simp
  next
    case False
    with Cons.prems have "distinct (map f xs)" and "k \<in> f ` set xs" by auto
    with Cons.IH False show ?thesis by simp
  qed
qed

text \<open>
  Claim C5. Every row the quality filter keeps has \<open>actual_price > 0\<close> and
  \<open>discounted_price \<ge> 0\<close>; for every input row with such prices the output holds exactly
  one row with its product name and discounted price; and a kept row is the first row of
  the input with valid prices, its product name and its discounted price.
\<close>

theorem quality_filter_first_occurrence:
  "set (remove_bad_data df) \<subseteq> {r \<in> set df. 0 < actual_price r \<and> 0 \<le> discounted_price r}
   \<and> (\<forall>x \<in> set df. 0 < actual_price x \<and> 0 \<le> discounted_price x \<longrightarrow>
         length (filter (\<lambda>r. product_name r = product_name x
                              \<and> discounted_price r = discounted_price x)
                   (remove_bad_data df)) = 1)
   \<and> (\<forall>r \<in> set (remove_bad_data df).
         find (\<lambda>x. (0 < actual_price x \<and> 0 \<le> discounted_price x)
                    \<and> product_name x = product_name r
                    \<and> discounted_price x = discounted_price r) df = Some r)"
proof -
  let ?valid = "\<lambda>r::feature_row. 0 < actual_price r \<and> 0 \<le> discounted_price r"
  let ?key = "\<lambda>r::feature_row. (product_name r, discounted_price r)"
  let ?kept = "filter ?valid df"
  have set_kept: "set ?kept = {r \<in> set df. ?valid r}" by simp
  have a: "set (remove_bad_data df) \<subseteq> {r \<in> set df. ?valid r}"
    using drop_duplicates_from_set [of ?key "[]" ?kept]
    unfolding remove_bad_data_eq set_kept .
  have keys: "?key ` set (remove_bad_data df) = ?key ` {r \<in> set df. ?valid r}"
    using drop_duplicates_from_keys [of ?key "[]" ?kept]
    unfolding remove_bad_data_eq set_kept by simp
  have dist: "distinct (map ?key (remove_bad_data df))"
    unfolding remove_bad_data_eq by (rule drop_duplicates_from_distinct)
  have b: "length (filter (\<lambda>r. product_name r = product_name x
                              \<and> discounted_price r = discounted_price x)
                   (remove_bad_data df)) = 1"
    if "x \<in> set df" and "?valid x" for x
  proof -
    from that have "?key x \<in> ?key ` {r \<in> set df. ?valid r}" by blast
    with keys have "?key x \<in> ?key ` set (remove_bad_data df)" by simp
    with dist have "length (filter (\<lambda>r. ?key r = ?key x) (remove_bad_data df)) = 1"
      by (rule distinct_key_count)
    then show ?thesis by simp
  qed
  have c: "find (\<lambda>x. ?valid x \<and> product_name x = product_name r
                    \<and> discounted_price x = discounted_price r) df = Some r"
    if "r \<in> set (remove_bad_data df)" for r
  proof -
    from that have "find (\<lambda>y. ?key y = ?key r) ?kept = Some r"
      unfolding remove_bad_data_eq by (rule drop_duplicates_from_first)
    then show ?thesis by (simp add: find_filter)
  qed
  from a b c show ?thesis by blast
qed

lemma remove_bad_data_filter_table:
  "remove_bad_data filter_table = [mouse_a, keyboard, mouse_c]"
  by (simp add: remove_bad_data_def drop_duplicates_def filter_table_def mouse_a_def
      mouse_b_def keyboard_def unpriced_def mouse_c_def)

theorem quality_filter_first_occurrence_witness:
  "remove_bad_data filter_table = [mouse_a, keyboard, mouse_c]
   \<and> mouse_b \<in> set filter_table
   \<and> 0 < actual_price mouse_b \<and> 0 \<le> discounted_price mouse_b
   \<and> length (filter (\<lambda>r. product_name r = product_name mouse_b
                            \<and> discounted_price r = discounted_price mouse_b)
                 (remove_bad_data filter_table)) = 1
   \<and> mouse_a \<in> set (remove_bad_data filter_table)
   \<and> find (\<lambda>x. (0 < actual_price x \<and> 0 \<le> discounted_price x)
                \<and> product_name x = product_name mouse_a
                \<and> discounted_price x = discounted_price mouse_a) filter_table = Some mouse_a
   \<and> keyboard \<in> set (remove_bad_data filter_table)
   \<and> discounted_price keyboard = discounted_price mouse_a
   \<and> mouse_c \<in> set (remove_bad_data filter_table)
   \<and> product_name mouse_c = product_name mouse_a"
proof -
  note t = quality_filter_first_occurrence [of filter_table]
  have e: "remove_bad_data filter_table = [mouse_a, keyboard, mouse_c]"
    by (rule remove_bad_data_filter_table)
  have b_in: "mouse_b \<in> set filter_table" by (simp add: filter_table_def)
  have b_ok: "0 < actual_price mouse_b \<and> 0 \<le> discounted_price mouse_b"
    by (simp add: mouse_b_def)
  from t b_in b_ok
  have one: "length (filter (\<lambda>r. product_name r = product_name mouse_b
                            \<and> discounted_price r = discounted_price mouse_b)
                 (remove_bad_data filter_table)) = 1" by blast
  have a_in: "mouse_a \<in> set (remove_bad_data filter_table)" by (simp add: e)
  from t a_in
  have first: "find (\<lambda>x. (0 < actual_price x \<and> 0 \<le> discounted_price x)
                \<and> product_name x = product_name mouse_a
                \<and> discounted_price x = discounted_price mouse_a) filter_table = Some mouse_a"
    by blast
  have k: "keyboard \<in> set (remove_bad_data filter_table)"
    and c: "mouse_c \<in> set (remove_bad_data filter_table)" by (simp_all add: e)
  have kp: "discounted_price keyboard = discounted_price mouse_a"
    by (simp add: keyboard_def mouse_a_def)
  have cn: "product_name mouse_c = product_name mouse_a"
    by (simp add: mouse_c_def mouse_a_def)
  from e b_in b_ok one a_in first k kp c cn show ?thesis by (intro conjI) simp_all
qed

lemma remove_bad_data_subseq: "subseq (remove_bad_data df) df"
proof -
  have "subseq (remove_bad_data df)
          (filter (\<lambda>r. 0 < actual_price r \<and> 0 \<le> discounted_price r) df)"
    unfolding remove_bad_data_eq by (rule drop_duplicates_from_subseq)
  moreover have "subseq (filter (\<lambda>r. 0 < actual_price r \<and> 0 \<le> discounted_price r) df) df"
    by (rule subseq_filter_left)
  ultimately show ?thesis by (rule subseq_order.trans)
qed

subsection \<open>The store\<close>

lemma tables_create_index [simp]:
  "tables (create_index_if_not_exists n t c db) = tables db"
  by (simp add: create_index_if_not_exists_def split: option.splits)

lemma indexes_create_index:
  "indexes (create_index_if_not_exists n t c db) =
     (case indexes db n of None \<Rightarrow> (indexes db)(n \<mapsto> (t, c)) | Some _ \<Rightarrow> indexes db)"
  by (simp add: create_index_if_not_exists_def split: option.splits)

lemma tables_to_sql_replace [simp]:
  "tables (to_sql_replace t rows db) = (tables db)(t \<mapsto> rows)"
  by (simp add: to_sql_replace_def drop_table_def Let_def)

lemma indexes_to_sql_replace [simp]:
  "indexes (to_sql_replace t rows db) = indexes (drop_table t db)"
  by (simp add: to_sql_replace_def Let_def)

lemma save_tables: "tables (save rows db) = (tables db)(''sales'' \<mapsto> rows)"
  by (simp add: save_def)

lemma create_index_on_dropped:
  "indexes (drop_table t (create_index_if_not_exists n t c db)) = indexes (drop_table t db)"
  by (auto simp: drop_table_def create_index_if_not_exists_def fun_eq_iff split: option.splits)

lemma drop_table_indexes_idem:
  "indexes (drop_table t (drop_table t db)) = indexes (drop_table t db)"
  by (auto simp: drop_table_def fun_eq_iff split: option.splits)

lemma drop_table_to_sql:
  "indexes (drop_table t (to_sql_replace t rows db)) = indexes (drop_table t db)"
  by (auto simp: to_sql_replace_def Let_def drop_table_def fun_eq_iff split: option.splits)

lemma indexes_drop_save: "indexes (drop_table ''sales'' (save rows db)) = indexes (drop_table ''sales'' db)"
  by (simp only: save_def create_index_on_dropped drop_table_to_sql)

lemma create_index_cong:
  "indexes a = indexes b \<Longrightarrow> tables a = tables b \<Longrightarrow>
   create_index_if_not_exists n t c a = create_index_if_not_exists n t c b"
  by (cases a, cases b) (simp add: create_index_if_not_exists_def)

lemma to_sql_replace_save:
  "to_sql_replace ''sales'' rows (save rows db) = to_sql_replace ''sales'' rows db"
proof -
  have "indexes (to_sql_replace ''sales'' rows (save rows db))
        = indexes (to_sql_replace ''sales'' rows db)"
    by (simp add: indexes_drop_save)
  moreover have "tables (to_sql_replace ''sales'' rows (save rows db))
        = tables (to_sql_replace ''sales'' rows db)"
    by (simp add: save_tables)
  ultimately show ?thesis by (cases "to_sql_replace ''sales'' rows (save rows db)",
        cases "to_sql_replace ''sales'' rows db") simp
qed

lemma save_idempotent: "save rows (save rows db) = save rows db"
proof -
  have "save rows (save rows db) =
     create_index_if_not_exists ''idx_price'' ''sales'' ''discounted_price''
       (create_index_if_not_exists ''idx_rating'' ''sales'' ''rating''
          (create_index_if_not_exists ''idx_main_category'' ''sales'' ''main_category''
             (to_sql_replace ''sales'' rows (save rows db))))"
    by (subst save_def) (rule refl)
  also have "\<dots> = save rows db"
    by (simp only: to_sql_replace_save save_def [symmetric])
  finally show ?thesis .
qed

text \<open>
  Claim C6. When a run on an input file succeeds and leaves the store \<open>d1\<close>, a second run
  on the same file succeeds and leaves the store as it is; and a run on that file from any
  other store succeeds with the same \<open>sales\<close> table. A run is a function of the input file
  and the store only.
\<close>

theorem preprocessing_idempotent:
  assumes "preprocessing csv db = Inr d1"
  shows "preprocessing csv d1 = Inr d1
    \<and> (\<exists>d2. preprocessing csv db2 = Inr d2 \<and> tables d2 ''sales'' = tables d1 ''sales'')"
proof -
  from assms obtain df rows where csv: "csv = Some df" and t: "transform df = Inr rows"
    and d1: "d1 = save rows db"
    by (auto simp: preprocessing_def split: option.splits sum.splits)
  have "preprocessing csv d1 = Inr d1"
    by (simp add: preprocessing_def csv t d1 save_idempotent)
  moreover have "preprocessing csv db2 = Inr (save rows db2)"
    by (simp add: preprocessing_def csv t)
  moreover have "tables (save rows db2) ''sales'' = tables d1 ''sales''"
    by (simp add: d1 save_tables)
  ultimately show ?thesis by blast
qed

theorem preprocessing_idempotent_witness:
  "preprocessing (Some [wireless_mouse]) empty_store
     = Inr (save [wireless_mouse_sales] empty_store)
   \<and> preprocessing (Some [wireless_mouse]) (save [wireless_mouse_sales] empty_store)
     = Inr (save [wireless_mouse_sales] empty_store)"
proof -
  have run: "preprocessing (Some [wireless_mouse]) empty_store
     = Inr (save [wireless_mouse_sales] empty_store)"
    by (simp add: preprocessing_def transform_wireless_mouse wireless_mouse_sales_def)
  from preprocessing_idempotent [OF run] run show ?thesis by simp
qed

subsection \<open>Order of the rows\<close>

lemma apply_series_Inr: "apply_series f xs = Inr ys \<Longrightarrow> map f xs = map Inr ys"
  by (induction xs arbitrary: ys) (auto split: sum.splits)

lemma core_cleaning_Inr:
  assumes "core_cleaning df = Inr cs"
  shows "\<exists>dps aps. map clean_price (map raw_discounted_price df) = map Inr dps
        \<and> map clean_price (map raw_actual_price df) = map Inr aps
        \<and> cs = map (\<lambda>(r, dp, ap). clean_row_of r dp ap) (zip df (zip dps aps))"
proof -
  from assms obtain dps aps
    where "apply_series clean_price (map raw_discounted_price df) = Inr dps"
      and "apply_series clean_price (map raw_actual_price df) = Inr aps"
      and "cs = map (\<lambda>(r, dp, ap). clean_row_of r dp ap) (zip df (zip dps aps))"
    unfolding core_cleaning_def by (auto split: sum.splits)
  then show ?thesis by (blast dest: apply_series_Inr)
qed

lemma core_cleaning_single:
  assumes "clean_price (raw_discounted_price r) = Inr dp"
    and "clean_price (raw_actual_price r) = Inr ap"
  shows "core_cleaning [r] = Inr [clean_row_of r dp ap]"
  using assms by (simp add: core_cleaning_def)

lemma core_cleaning_rowwise:
  assumes "core_cleaning df = Inr cs"
  shows "list_all2 (\<lambda>r c. core_cleaning [r] = Inr [c]) df cs"
proof -
  from core_cleaning_Inr [OF assms] obtain dps aps
    where d: "map clean_price (map raw_discounted_price df) = map Inr dps"
      and a: "map clean_price (map raw_actual_price df) = map Inr aps"
      and cs: "cs = map (\<lambda>(r, dp, ap). clean_row_of r dp ap) (zip df (zip dps aps))"
    by blast
  from d have ld: "length dps = length df" by (metis length_map)
  from a have la: "length aps = length df" by (metis length_map)
  have len: "length df = length cs" by (simp add: cs ld la)
  have "core_cleaning [df ! i] = Inr [cs ! i]" if i: "i < length df" for i
  proof -
    from d i ld have "clean_price (raw_discounted_price (df ! i)) = Inr (dps ! i)"
      by (metis length_map nth_map)
    moreover from a i la have "clean_price (raw_actual_price (df ! i)) = Inr (aps ! i)"
      by (metis length_map nth_map)
    moreover from i ld la have "cs ! i = clean_row_of (df ! i) (dps ! i) (aps ! i)"
      by (simp add: cs)
    ultimately show ?thesis by (simp add: core_cleaning_single)
  qed
  with len show ?thesis by (simp add: list_all2_conv_all_nth)
qed

lemma normalize_categories_map:
  "normalize_categories df = map (\<lambda>c. hd (normalize_categories [c])) df"
  by (simp add: normalize_categories_def)

lemma feature_engineering_map:
  "feature_engineering df = map (\<lambda>c. hd (feature_engineering [c])) df"
  by (simp add: feature_engineering_def discount_percent_column_eq zip_map_self)

lemma normalize_categories_single:
  "normalize_categories [c] = [hd (normalize_categories [c])]"
  by (simp add: normalize_categories_def)

lemma feature_engineering_single:
  "feature_engineering [c] = [hd (feature_engineering [c])]"
  by (simp add: feature_engineering_def discount_percent_column_eq)

lemma enrich_single:
  assumes "core_cleaning [r] = Inr [c]"
  shows "enrich [r] = Inr [hd (feature_engineering [hd (normalize_categories [c])])]"
proof -
  have "enrich [r] = Inr (feature_engineering (normalize_categories [c]))"
    by (simp add: enrich_def assms)
  also have "normalize_categories [c] = [hd (normalize_categories [c])]"
    by (rule normalize_categories_single)
  also have "feature_engineering [hd (normalize_categories [c])]
      = [hd (feature_engineering [hd (normalize_categories [c])])]"
    by (rule feature_engineering_single)
  finally show ?thesis .
qed

lemma enrich_rowwise:
  assumes "enrich df = Inr es"
  shows "list_all2 (\<lambda>r e. enrich [r] = Inr [e]) df es"
proof -
  from assms obtain cs where cc: "core_cleaning df = Inr cs"
    and es: "es = feature_engineering (normalize_categories cs)"
    by (auto simp: enrich_def split: sum.splits)
  let ?g = "\<lambda>c. hd (feature_engineering [hd (normalize_categories [c])])"
  have a: "es = map (\<lambda>c. hd (feature_engineering [c])) (normalize_categories cs)"
    unfolding es by (rule feature_engineering_map)
  have b: "normalize_categories cs = map (\<lambda>c. hd (normalize_categories [c])) cs"
    by (rule normalize_categories_map)
  have "map (\<lambda>c. hd (feature_engineering [c])) (normalize_categories cs)
      = map (\<lambda>c. hd (feature_engineering [c])) (map (\<lambda>c. hd (normalize_categories [c])) cs)"
    using b by (rule arg_cong)
  with a have es': "es = map ?g cs"
    by (simp only: map_map o_def)
  from core_cleaning_rowwise [OF cc]
  have "list_all2 (\<lambda>r c. enrich [r] = Inr [?g c]) df cs"
    by (rule list_all2_mono) (rule enrich_single)
  then show ?thesis by (simp only: es' list_all2_map2)
qed

lemma subseq_list_all2:
  assumes "subseq ys' ys" and "list_all2 P xs ys"
  shows "\<exists>xs'. subseq xs' xs \<and> list_all2 P xs' ys'"
  using assms
proof (induction arbitrary: xs rule: list_emb.induct)
  case (list_emb_Nil ys)
  then show ?case by auto
next
  case (list_emb_Cons ys' ys y)
  from list_emb_Cons.prems obtain x xs0 where xs: "xs = x # xs0" and "list_all2 P xs0 ys"
    by (auto simp: list_all2_Cons2)
  with list_emb_Cons.IH obtain xs' where "subseq xs' xs0" and "list_all2 P xs' ys'" by blast
  with xs show ?case by auto
next
  case (list_emb_Cons2 y' y ys' ys)
  from list_emb_Cons2.prems obtain x xs0 where xs: "xs = x # xs0" and p: "P x y"
    and "list_all2 P xs0 ys"
    by (auto simp: list_all2_Cons2)
  with list_emb_Cons2.IH obtain xs' where s: "subseq xs' xs0" and l: "list_all2 P xs' ys'" by blast
  from list_emb_Cons2.hyps have "y' = y" by simp
  with xs p s l have "subseq (x # xs') xs \<and> list_all2 P (x # xs') (y' # ys')" by simp
  then show ?case by blast
qed

text \<open>
  Claim C10. The rows the quality filter keeps are a subsequence of its input. After a run
  that succeeds, the \<open>sales\<close> table holds, in this order, the rows written for a
  subsequence of the rows of the input file.
\<close>

theorem pipeline_keeps_order:
  "subseq (remove_bad_data fs) fs
   \<and> (preprocessing (Some df) db = Inr db' \<longrightarrow>
        (\<exists>kept rows. tables db' ''sales'' = Some rows \<and> subseq kept df
           \<and> list_all2 written_for kept rows))"
proof -
  have "\<exists>kept rows. tables db' ''sales'' = Some rows \<and> subseq kept df
           \<and> list_all2 written_for kept rows"
    if run: "preprocessing (Some df) db = Inr db'"
  proof -
    from run obtain es where e: "enrich df = Inr es"
      and db': "db' = save (final_df (remove_bad_data es)) db"
      by (auto simp: preprocessing_def transform_def split: sum.splits)
    from subseq_list_all2 [OF remove_bad_data_subseq enrich_rowwise [OF e]]
    obtain kept where k: "subseq kept df"
      and l: "list_all2 (\<lambda>r e. enrich [r] = Inr [e]) kept (remove_bad_data es)"
      by blast
    from l have "list_all2 (\<lambda>r e. written_for r (project e)) kept (remove_bad_data es)"
      by (rule list_all2_mono) (simp add: written_for_def)
    then have "list_all2 written_for kept (final_df (remove_bad_data es))"
      by (simp add: final_df_def list_all2_map2)
    moreover have "tables db' ''sales'' = Some (final_df (remove_bad_data es))"
      by (simp add: db' save_tables)
    ultimately show ?thesis using k by blast
  qed
  with remove_bad_data_subseq show ?thesis by blast
qed

lemma usb_cable_neq: "wireless_mouse \<noteq> usb_cable"
  by (simp add: wireless_mouse_def usb_cable_def)

lemma core_cleaning_three:
  "core_cleaning [wireless_mouse, wireless_mouse, usb_cable] =
     Inr [\<lparr>product_name = ''wireless mouse'',
          category = ''electronics|accessories|mice'',
          discounted_price = 499, actual_price = 999, rating = fl (43 / 10),
          rating_count = 1234\<rparr>,
         \<lparr>product_name = ''wireless mouse'',
          category = ''electronics|accessories|mice'',
          discounted_price = 499, actual_price = 999, rating = fl (43 / 10),
          rating_count = 1234\<rparr>,
         \<lparr>product_name = ''usb cable'',
          category = ''computers&accessories|cables'',
          discounted_price = 199, actual_price = 349, rating = 4,
          rating_count = 50\<rparr>]"
  by (simp add: core_cleaning_def clean_row_of_def wireless_mouse_def usb_cable_def
      re_sub_non_price_def
      is_digit_def py_float_def unsigned_decimal_def digits_value_def digit_value_def lower_def
      lower_char_def strip_def py_space_def clean_rating_def clean_rating_count_def
      str_replace_comma_def astype_int_def fillna_def signed_decimal_def c_space_def fl_values)

lemma feature_engineering_usb_cable:
  "feature_engineering
     [\<lparr>product_name = ''usb cable'',
       category = ''computers&accessories|cables'',
       discounted_price = 199, actual_price = 349, rating = 4, rating_count = 50,
       main_category_raw = Some ''computers&accessories'', main_category = ''Computers''\<rparr>] =
     [\<lparr>product_name = ''usb cable'',
       category = ''computers&accessories|cables'',
       discounted_price = 199, actual_price = 349, rating = 4, rating_count = 50,
       main_category_raw = Some ''computers&accessories'', main_category = ''Computers'',
       discount_percent = Some (fl (4298 / 100)), price_savings = Some 150,
       popularity_score = Some 200, price_bucket = Some ''budget''\<rparr>]"
  by code_simp

lemma enrich_three:
  "enrich [wireless_mouse, wireless_mouse, usb_cable] =
     Inr [\<lparr>product_name = ''wireless mouse'',
          category = ''electronics|accessories|mice'',
          discounted_price = 499, actual_price = 999, rating = fl (43 / 10),
          rating_count = 1234,
          main_category_raw = Some ''electronics'', main_category = ''Electronics'',
          discount_percent = Some (fl (5005 / 100)), price_savings = Some 500,
          popularity_score = Some (fl (53062 / 10)), price_bucket = Some ''budget''\<rparr>,
         \<lparr>product_name = ''wireless mouse'',
          category = ''electronics|accessories|mice'',
          discounted_price = 499, actual_price = 999, rating = fl (43 / 10),
          rating_count = 1234,
          main_category_raw = Some ''electronics'', main_category = ''Electronics'',
          discount_percent = Some (fl (5005 / 100)), price_savings = Some 500,
          popularity_score = Some (fl (53062 / 10)), price_bucket = Some ''budget''\<rparr>,
         \<lparr>product_name = ''usb cable'',
          category = ''computers&accessories|cables'',
          discounted_price = 199, actual_price = 349, rating = 4, rating_count = 50,
          main_category_raw = Some ''computers&accessories'', main_category = ''Computers'',
          discount_percent = Some (fl (4298 / 100)), price_savings = Some 150,
          popularity_score = Some 200, price_bucket = Some ''budget''\<rparr>]"
proof -
  have "enrich [wireless_mouse, wireless_mouse, usb_cable] =
      Inr (map (\<lambda>c. hd (feature_engineering [c]))
        (normalize_categories
          [\<lparr>product_name = ''wireless mouse'',
            category = ''electronics|accessories|mice'',
            discounted_price = 499, actual_price = 999, rating = fl (43 / 10),
            rating_count = 1234\<rparr>,
           \<lparr>product_name = ''wireless mouse'',
            category = ''electronics|accessories|mice'',
            discounted_price = 499, actual_price = 999, rating = fl (43 / 10),
            rating_count = 1234\<rparr>,
           \<lparr>product_name = ''usb cable'',
            category = ''computers&accessories|cables'',
            discounted_price = 199, actual_price = 349, rating = 4,
            rating_count = 50\<rparr>]))"
    unfolding enrich_def core_cleaning_three
    by (simp only: sum.case feature_engineering_map [symmetric])
  then show ?thesis
    by (simp add: normalize_categories_def str_get0_def series_map_def category_map_def
        fillna_def feature_engineering_wireless_mouse feature_engineering_usb_cable)
qed

lemma transform_three:
  "transform [wireless_mouse, wireless_mouse, usb_cable]
     = Inr [wireless_mouse_sales, usb_cable_sales]"
  by (simp add: transform_def enrich_three remove_bad_data_def drop_duplicates_def
      final_df_def project_def wireless_mouse_sales_def usb_cable_sales_def)

lemma written_for_three:
  "list_all2 written_for [wireless_mouse, usb_cable] [wireless_mouse_sales, usb_cable_sales]"
proof -
  from enrich_rowwise [OF enrich_three]
  have "written_for wireless_mouse wireless_mouse_sales"
    and "written_for usb_cable usb_cable_sales"
    by (simp_all add: written_for_def project_def wireless_mouse_sales_def usb_cable_sales_def)
  then show ?thesis by simp
qed

theorem pipeline_keeps_order_witness:
  "preprocessing (Some [wireless_mouse, wireless_mouse, usb_cable]) empty_store
     = Inr (save [wireless_mouse_sales, usb_cable_sales] empty_store)
   \<and> tables (save [wireless_mouse_sales, usb_cable_sales] empty_store) ''sales''
     = Some [wireless_mouse_sales, usb_cable_sales]
   \<and> subseq [wireless_mouse, usb_cable] [wireless_mouse, wireless_mouse, usb_cable]
   \<and> list_all2 written_for [wireless_mouse, usb_cable] [wireless_mouse_sales, usb_cable_sales]
   \<and> remove_bad_data filter_table = [mouse_a, keyboard, mouse_c]
   \<and> subseq [mouse_a, keyboard, mouse_c] filter_table
   \<and> (\<exists>kept rows.
         tables (save [wireless_mouse_sales, usb_cable_sales] empty_store) ''sales'' = Some rows
         \<and> subseq kept [wireless_mouse, wireless_mouse, usb_cable]
         \<and> list_all2 written_for kept rows)"
proof -
  let ?db = "save [wireless_mouse_sales, usb_cable_sales] empty_store"
  note t = pipeline_keeps_order [of filter_table "[wireless_mouse, wireless_mouse, usb_cable]"
      empty_store ?db]
  have run: "preprocessing (Some [wireless_mouse, wireless_mouse, usb_cable]) empty_store
     = Inr ?db"
    by (simp add: preprocessing_def transform_three)
  from t have "subseq (remove_bad_data filter_table) filter_table" by (rule conjunct1)
  then have sub: "subseq [mouse_a, keyboard, mouse_c] filter_table"
    by (simp only: remove_bad_data_filter_table)
  have tab: "tables ?db ''sales'' = Some [wireless_mouse_sales, usb_cable_sales]"
    by (simp add: save_tables)
  have sub2: "subseq [wireless_mouse, usb_cable] [wireless_mouse, wireless_mouse, usb_cable]"
    using usb_cable_neq by simp
  from t run
  have ex: "\<exists>kept rows. tables ?db ''sales'' = Some rows
      \<and> subseq kept [wireless_mouse, wireless_mouse, usb_cable]
      \<and> list_all2 written_for kept rows" by blast
  from run tab sub2 written_for_three remove_bad_data_filter_table sub ex
  show ?thesis by (intro conjI)
qed

subsection \<open>Cleaning the rating count\<close>

















end
